theory Spec2Isabelle
  imports Main "HOL-Library.Char_ord" "HOL-Library.List_Lexorder"
begin

section \<open>Python strings\<close>

text \<open>
  A Python \<open>str\<close> is modelled as a \<open>string\<close> whose characters are code points
  below 256. \<open>str.lower\<close> on that range maps \<open>A..Z\<close> and the Latin-1 capitals
  (U+00C0 to U+00DE, without the multiplication sign U+00D7) to the code point 32 above
  and leaves every other character alone.
\<close>

definition lower_char :: "char \<Rightarrow> char" where
  "lower_char c =
     (let n = (of_char c :: nat)
      in if (65 \<le> n \<and> n \<le> 90) \<or> (192 \<le> n \<and> n \<le> 222 \<and> n \<noteq> 215)
         then char_of (n + 32) else c)"

definition lower :: "string \<Rightarrow> string" where
  "lower s = map lower_char s"

text \<open>\<open>s.lstrip(d)\<close> for a one-character set \<open>d\<close>: every leading \<open>d\<close> goes.\<close>

fun lstrip :: "char \<Rightarrow> string \<Rightarrow> string" where
  "lstrip d [] = []"
| "lstrip d (c # cs) = (if c = d then lstrip d cs else c # cs)"

text \<open>\<open>s.rfind(d)\<close>: the index of the last \<open>d\<close>; Python's \<open>-1\<close> is \<open>None\<close>.\<close>

fun rfind :: "char \<Rightarrow> string \<Rightarrow> nat option" where
  "rfind d [] = None"
| "rfind d (c # cs) =
     (case rfind d cs of
        Some i \<Rightarrow> Some (Suc i)
      | None \<Rightarrow> if c = d then Some 0 else None)"

text \<open>\<open>sep.join(xs)\<close>.\<close>

fun join :: "string \<Rightarrow> string list \<Rightarrow> string" where
  "join sep [] = []"
| "join sep [x] = x"
| "join sep (x # y # ys) = x @ sep @ join sep (y # ys)"

section \<open>categories.py\<close>

datatype category = AUDIO | IMAGE | VIDEO | SPREADSHEET | PRESENTATION | DOCUMENT

text \<open>The \<open>value\<close> attribute of the enumeration's members.\<close>

fun category_value :: "category \<Rightarrow> string" where
  "category_value AUDIO = ''audio''"
| "category_value IMAGE = ''image''"
| "category_value VIDEO = ''video''"
| "category_value SPREADSHEET = ''spreadsheet''"
| "category_value PRESENTATION = ''presentation''"
| "category_value DOCUMENT = ''document''"

text \<open>The two dictionaries, in the order the source writes their items.\<close>

definition EXTENSION_TO_CATEGORY :: "(string \<times> category) list" where
  "EXTENSION_TO_CATEGORY =
     [(''mp3'', AUDIO), (''wav'', AUDIO), (''m4a'', AUDIO),
      (''heic'', IMAGE), (''jpg'', IMAGE), (''jpeg'', IMAGE), (''gif'', IMAGE),
      (''icns'', IMAGE), (''webp'', IMAGE), (''avif'', IMAGE),
      (''mov'', VIDEO), (''mp4'', VIDEO),
      (''csv'', SPREADSHEET), (''ods'', SPREADSHEET), (''xlsx'', SPREADSHEET),
      (''xls'', SPREADSHEET), (''xlsm'', SPREADSHEET),
      (''odp'', PRESENTATION), (''ppt'', PRESENTATION), (''pptx'', PRESENTATION),
      (''docx'', DOCUMENT), (''doc'', DOCUMENT), (''odt'', DOCUMENT),
      (''txt'', DOCUMENT), (''rtf'', DOCUMENT)]"

definition EXTENSION_ALIASES :: "(string \<times> string) list" where
  "EXTENSION_ALIASES = [(''jpeg'', ''jpg'')]"

text \<open>\<open>EXTENSION_ALIASES.get(ext, ext)\<close>.\<close>

definition resolve_alias :: "string \<Rightarrow> string" where
  "resolve_alias ext =
     (case map_of EXTENSION_ALIASES ext of None \<Rightarrow> ext | Some canonical \<Rightarrow> canonical)"

definition normalize_extension :: "string \<Rightarrow> string" where
  "normalize_extension ext = resolve_alias (lower (lstrip CHR ''.'' ext))"

text \<open>
  The normalization as the specification words it: strip one leading separator,
  lowercase, substitute the canonical spelling of a known alias.
\<close>

definition strip_one_separator :: "string \<Rightarrow> string" where
  "strip_one_separator ext =
     (case ext of [] \<Rightarrow> [] | c # cs \<Rightarrow> if c = CHR ''.'' then cs else c # cs)"

definition spec_normalize :: "string \<Rightarrow> string" where
  "spec_normalize ext = resolve_alias (lower (strip_one_separator ext))"

subsection \<open>Paths\<close>

text \<open>
  A \<open>pathlib\<close> path on a POSIX system, in the normal form the constructor gives it:
  whether it starts at the root, and its components (none of them empty or a single
  dot). Two paths are equal when both agree, as \<open>PurePosixPath.__eq__\<close> has it.
\<close>

record path =
  root :: bool
  segments :: "string list"

text \<open>\<open>Path.name\<close>: the final component, empty for the root and for \<open>Path('.')\<close>.\<close>

definition path_name :: "path \<Rightarrow> string" where
  "path_name p = (case segments p of [] \<Rightarrow> [] | _ \<Rightarrow> last (segments p))"

text \<open>
  \<open>Path.suffix\<close> and \<open>Path.stem\<close> (CPython up to 3.13): with \<open>i = name.rfind('.')\<close>,
  the suffix is \<open>name[i:]\<close> and the stem \<open>name[:i]\<close> when \<open>0 < i < len(name) - 1\<close>;
  otherwise the suffix is empty and the stem is the whole name.
\<close>

definition path_suffix :: "path \<Rightarrow> string" where
  "path_suffix p =
     (let n = path_name p
      in case rfind CHR ''.'' n of
           None \<Rightarrow> []
         | Some i \<Rightarrow> if 0 < i \<and> i < length n - 1 then drop i n else [])"

definition path_stem :: "path \<Rightarrow> string" where
  "path_stem p =
     (let n = path_name p
      in case rfind CHR ''.'' n of
           None \<Rightarrow> n
         | Some i \<Rightarrow> if 0 < i \<and> i < length n - 1 then take i n else n)"

definition get_extension :: "path \<Rightarrow> string" where
  "get_extension p = normalize_extension (path_suffix p)"

datatype error =
    FileNotFoundError string
  | ValueError string
  | ConversionError string
  | ToolNotFoundError string
  | CategoryMismatchError string
  | OSError string

text \<open>\<open>sorted(set(EXTENSION_TO_CATEGORY.keys()))\<close>, strings ordered by code point.\<close>

definition supported_extensions :: "string list" where
  "supported_extensions = sorted_list_of_set (set (map fst EXTENSION_TO_CATEGORY))"

definition unsupported_message :: "string \<Rightarrow> string" where
  "unsupported_message ext =
     ''Unsupported file format: ''
       @ (if ext \<noteq> [] then ''.'' @ ext else ''(no extension)'')
       @ ''\<newline>'' @ ''Supported formats: '' @ join '', '' supported_extensions"

definition get_category :: "path \<Rightarrow> error + category" where
  "get_category p =
     (let ext = get_extension p
      in case map_of EXTENSION_TO_CATEGORY ext of
           None \<Rightarrow> Inl (ValueError (unsupported_message ext))
         | Some c \<Rightarrow> Inr c)"

text \<open>\<open>str(p)\<close>, \<open>p.parent\<close> and \<open>p / s\<close>.\<close>

definition path_str :: "path \<Rightarrow> string" where
  "path_str p =
     (if root p then ''/'' @ join ''/'' (segments p)
      else if segments p = [] then ''.''
      else join ''/'' (segments p))"

definition path_parent :: "path \<Rightarrow> path" where
  "path_parent p = p\<lparr>segments := butlast (segments p)\<rparr>"

text \<open>\<open>s.split(d)\<close>.\<close>

fun split_on :: "char \<Rightarrow> string \<Rightarrow> string list" where
  "split_on d [] = [[]]"
| "split_on d (c # cs) =
     (if c = d then [] # split_on d cs
      else case split_on d cs of
             w # ws \<Rightarrow> (c # w) # ws
           | [] \<Rightarrow> [[c]])"

text \<open>
  Joining a string to a path parses the string: it is cut at the slashes, empty pieces
  and single dots are dropped, and a string that starts with a slash replaces the path.
\<close>

definition parse_segments :: "string \<Rightarrow> string list" where
  "parse_segments s = filter (\<lambda>w. w \<noteq> [] \<and> w \<noteq> ''.'') (split_on CHR ''/'' s)"

definition truediv :: "path \<Rightarrow> string \<Rightarrow> path" where
  "truediv p s =
     (case s of
        [] \<Rightarrow> p
      | c # _ \<Rightarrow>
          if c = CHR ''/'' then \<lparr>root = True, segments = parse_segments s\<rparr>
          else p\<lparr>segments := segments p @ parse_segments s\<rparr>)"

section \<open>converters.py\<close>

text \<open>
  The file system, as far as the program sees it: a table from paths to directory
  entries. An entry is a hard link to a file, named by the number of its inode (two
  paths with the same number are two names of one file), or a symbolic link with the
  path it points to.
\<close>

datatype entry = File nat | Symlink path

type_synonym files = "path \<rightharpoonup> entry"

text \<open>
  Following symbolic links from a path, at most \<open>k\<close> of them: the file reached, if any.
  \<open>trail\<close> lists the paths looked up on the way.
\<close>

fun resolve :: "nat \<Rightarrow> files \<Rightarrow> path \<Rightarrow> nat option" where
  "resolve 0 f p = (case f p of Some (File n) \<Rightarrow> Some n | _ \<Rightarrow> None)"
| "resolve (Suc k) f p =
     (case f p of
        None \<Rightarrow> None
      | Some (File n) \<Rightarrow> Some n
      | Some (Symlink q) \<Rightarrow> resolve k f q)"


text \<open>Two paths are hard links of one file.\<close>

definition same_file :: "files \<Rightarrow> path \<Rightarrow> path \<Rightarrow> bool" where
  "same_file f p q =
     (case f p of
        Some (File a) \<Rightarrow> (case f q of Some (File b) \<Rightarrow> a = b | _ \<Rightarrow> False)
      | _ \<Rightarrow> False)"

text \<open>
  The \<open>rename\<close> of POSIX on an existing source: nothing happens when source and
  destination are hard links of one file; otherwise the source's entry (a symbolic link
  itself, not what it points to) replaces the destination's and the source is gone.
\<close>

definition os_rename :: "path \<Rightarrow> path \<Rightarrow> files \<Rightarrow> files" where
  "os_rename src dst f = (if same_file f src dst then f else f(src := None, dst := f src))"

text \<open>
  The world the converters act on: the file system and the trace of what the program
  did, in order. \<open>Invoke k\<close> marks the entry into the converter \<open>k\<close>; \<open>Print\<close>,
  \<open>Exec\<close> and \<open>Rename\<close> are the calls to \<open>print\<close>, \<open>subprocess.run\<close> and
  \<open>Path.rename\<close> (a rename that returned). A raised exception leaves the world as it
  is at that moment, so every function returns the exception, if any, with the world.
\<close>

datatype converter = ConvertAudio | ConvertVideo | ConvertImage | ConvertOffice

datatype event =
    Invoke converter
  | Print string
  | Exec "string list"
  | Rename path path

record world =
  fs :: files
  trace :: "event list"

text \<open>
  What \<open>subprocess.run\<close> gives: the executable was not found (\<open>FileNotFoundError\<close>),
  or the process ran to its end with a return code, its standard output and its
  standard error.
\<close>

datatype completed = NotFound | Completed int string string

text \<open>
  The environment is a parameter: which tools \<open>shutil.which\<close> resolves, what an
  external process answers and does to the file system, and the message of the error,
  if any, with which the operating system refuses the rename of an existing source (a
  directory in the way, another device, a missing permission).
\<close>

record env =
  which :: "string \<Rightarrow> bool"
  proc :: "string list \<Rightarrow> files \<Rightarrow> completed \<times> files"
  rename_error :: "path \<Rightarrow> path \<Rightarrow> files \<Rightarrow> string option"

type_synonym outcome = "error option \<times> world"

definition emit :: "event \<Rightarrow> world \<Rightarrow> world" where
  "emit ev w = w\<lparr>trace := trace w @ [ev]\<rparr>"

text \<open>
  \<open>p.exists()\<close> follows symbolic links, up to the 40 that Linux allows on one lookup; a
  chain that is longer, loops or ends at no entry is reported as not existing.
\<close>

definition path_exists :: "world \<Rightarrow> path \<Rightarrow> bool" where
  "path_exists w p = (resolve 40 (fs w) p \<noteq> None)"

text \<open>
  \<open>src.rename(dst)\<close>. A source with no entry is a \<open>FileNotFoundError\<close> (its message
  with the two names quoted as \<open>repr\<close> quotes a string of plain characters); any other
  refusal of the operating system is an \<open>OSError\<close>.
\<close>

definition path_rename :: "env \<Rightarrow> path \<Rightarrow> path \<Rightarrow> world \<Rightarrow> outcome" where
  "path_rename e src dst w =
     (case fs w src of
        None \<Rightarrow>
          (Some (FileNotFoundError
             (''[Errno 2] No such file or directory: ''
              @ [CHR 0x27] @ path_str src @ [CHR 0x27] @ '' -> ''
              @ [CHR 0x27] @ path_str dst @ [CHR 0x27])), w)
      | Some _ \<Rightarrow>
          (case rename_error e src dst (fs w) of
             Some m \<Rightarrow> (Some (OSError m), w)
           | None \<Rightarrow>
               (None, emit (Rename src dst) (w\<lparr>fs := os_rename src dst (fs w)\<rparr>))))"

definition check_tool_available :: "env \<Rightarrow> string \<Rightarrow> bool" where
  "check_tool_available e tool_name = which e tool_name"

text \<open>An integer inside an f-string: its decimal digits, after a minus sign if negative.\<close>

fun str_nat :: "nat \<Rightarrow> string" where
  "str_nat n =
     (if n < 10 then [char_of (48 + n)]
      else str_nat (n div 10) @ [char_of (48 + n mod 10)])"

declare str_nat.simps [simp del]

definition str_int :: "int \<Rightarrow> string" where
  "str_int i = (if i < 0 then ''-'' @ str_nat (nat (- i)) else str_nat (nat i))"

definition run_command :: "env \<Rightarrow> string list \<Rightarrow> bool \<Rightarrow> string \<Rightarrow> world \<Rightarrow> outcome" where
  "run_command e cmd verbose tool_name w =
     (let w1 = (if verbose then emit (Print (''Running: '' @ join '' '' cmd)) w else w)
      in case proc e cmd (fs w1) of
           (NotFound, _) \<Rightarrow>
             (Some (ToolNotFoundError
                (tool_name @ '' not found in PATH. Please install it and ensure it's available.'')),
              emit (Exec cmd) w1)
         | (Completed returncode out err, fs') \<Rightarrow>
             (let w2 = emit (Exec cmd) (w1\<lparr>fs := fs'\<rparr>)
              in if returncode \<noteq> 0
                 then (Some (ConversionError
                         (tool_name @ '' failed with exit code '' @ str_int returncode
                          @ (if verbose \<or> err \<noteq> [] then ''\<newline>Error output:\<newline>'' @ err else [])
                          @ (if verbose \<and> out \<noteq> [] then ''\<newline>Standard output:\<newline>'' @ out else []))),
                       w2)
                 else (None, w2)))"

definition convert_audio :: "env \<Rightarrow> path \<Rightarrow> path \<Rightarrow> bool \<Rightarrow> world \<Rightarrow> outcome" where
  "convert_audio e input_path output_path verbose w =
     (let w0 = emit (Invoke ConvertAudio) w
      in if \<not> check_tool_available e ''ffmpeg''
         then (Some (ToolNotFoundError
                 ''FFmpeg is required for audio conversion. Please install it.''), w0)
         else
           (let ext = lstrip CHR ''.'' (lower (path_suffix output_path));
                cmd = [''ffmpeg'', ''-i'', path_str input_path, ''-y''];
                finish = (\<lambda>c. run_command e (c @ [path_str output_path]) verbose ''FFmpeg'' w0)
            in if ext = ''mp3'' then finish (cmd @ [''-codec:a'', ''libmp3lame'', ''-q:a'', ''2''])
               else if ext = ''wav'' then finish (cmd @ [''-codec:a'', ''pcm_s16le''])
               else if ext = ''m4a'' then finish (cmd @ [''-codec:a'', ''aac'', ''-b:a'', ''192k''])
               else (Some (ConversionError (''Unsupported audio output format: '' @ ext)), w0)))"

definition convert_video :: "env \<Rightarrow> path \<Rightarrow> path \<Rightarrow> bool \<Rightarrow> world \<Rightarrow> outcome" where
  "convert_video e input_path output_path verbose w =
     (let w0 = emit (Invoke ConvertVideo) w
      in if \<not> check_tool_available e ''ffmpeg''
         then (Some (ToolNotFoundError
                 ''FFmpeg is required for video conversion. Please install it.''), w0)
         else
           (let ext = lstrip CHR ''.'' (lower (path_suffix output_path));
                cmd = [''ffmpeg'', ''-i'', path_str input_path, ''-y''];
                finish = (\<lambda>c. run_command e (c @ [path_str output_path]) verbose ''FFmpeg'' w0)
            in if ext = ''mp4''
               then finish (cmd @ [''-codec:v'', ''libx264'', ''-codec:a'', ''aac'',
                                   ''-movflags'', ''+faststart''])
               else if ext = ''mov''
               then finish (cmd @ [''-codec:v'', ''libx264'', ''-codec:a'', ''aac''])
               else (Some (ConversionError (''Unsupported video output format: '' @ ext)), w0)))"

definition convert_image :: "env \<Rightarrow> path \<Rightarrow> path \<Rightarrow> bool \<Rightarrow> world \<Rightarrow> outcome" where
  "convert_image e input_path output_path verbose w =
     (let w0 = emit (Invoke ConvertImage) w
      in if \<not> check_tool_available e ''magick''
         then (Some (ToolNotFoundError
                 ''ImageMagick is required for image conversion. Please install it.''), w0)
         else run_command e [''magick'', path_str input_path, path_str output_path]
                verbose ''ImageMagick'' w0)"

text \<open>
  The three values \<open>convert_office\<close> computes from its arguments alone: the target
  extension, the command, and the path where the tool is expected to write.
\<close>

definition office_target_ext :: "path \<Rightarrow> string" where
  "office_target_ext output_path = lstrip CHR ''.'' (path_suffix output_path)"

definition office_cmd :: "path \<Rightarrow> path \<Rightarrow> string list" where
  "office_cmd input_path output_path =
     [''soffice'', ''--headless'', ''--convert-to'', office_target_ext output_path,
      ''--outdir'', path_str (path_parent output_path), path_str input_path]"

definition office_expected_output :: "path \<Rightarrow> path \<Rightarrow> path" where
  "office_expected_output input_path output_path =
     truediv (path_parent output_path)
       (path_stem input_path @ ''.'' @ office_target_ext output_path)"

definition convert_office :: "env \<Rightarrow> path \<Rightarrow> path \<Rightarrow> bool \<Rightarrow> world \<Rightarrow> outcome" where
  "convert_office e input_path output_path verbose w =
     (let w0 = emit (Invoke ConvertOffice) w
      in if \<not> check_tool_available e ''soffice''
         then (Some (ToolNotFoundError
                 ''LibreOffice is required for office document conversion. Please install it.''),
               w0)
         else
           (case run_command e (office_cmd input_path output_path) verbose ''LibreOffice'' w0 of
              (Some err, w1) \<Rightarrow> (Some err, w1)
            | (None, w1) \<Rightarrow>
                (let expected_output = office_expected_output input_path output_path
                 in if \<not> path_exists w1 expected_output
                    then (Some (ConversionError
                            (''LibreOffice did not produce expected output file: ''
                             @ path_str expected_output)), w1)
                    else if expected_output \<noteq> output_path
                    then path_rename e expected_output output_path
                           (if verbose
                            then emit (Print (''Renaming '' @ path_str expected_output
                                              @ '' to '' @ path_str output_path)) w1
                            else w1)
                    else (None, w1))))"

section \<open>dispatcher.py\<close>

text \<open>\<open>str(e)\<close> of an exception built from one message.\<close>

fun error_text :: "error \<Rightarrow> string" where
  "error_text (FileNotFoundError m) = m"
| "error_text (ValueError m) = m"
| "error_text (ConversionError m) = m"
| "error_text (ToolNotFoundError m) = m"
| "error_text (CategoryMismatchError m) = m"
| "error_text (OSError m) = m"

text \<open>
  The guards of the \<open>if\<close>/\<open>elif\<close> chain that ends \<open>convert_file\<close>, in the source's
  order: the converter whose branch a category takes, \<open>None\<close> for the trailing
  \<open>else\<close>.
\<close>

definition dispatch :: "category \<Rightarrow> converter option" where
  "dispatch c =
     (if c = AUDIO then Some ConvertAudio
      else if c = VIDEO then Some ConvertVideo
      else if c = IMAGE then Some ConvertImage
      else if c \<in> set [DOCUMENT, SPREADSHEET, PRESENTATION] then Some ConvertOffice
      else None)"

fun run_converter :: "converter \<Rightarrow> env \<Rightarrow> path \<Rightarrow> path \<Rightarrow> bool \<Rightarrow> world \<Rightarrow> outcome" where
  "run_converter ConvertAudio = convert_audio"
| "run_converter ConvertVideo = convert_video"
| "run_converter ConvertImage = convert_image"
| "run_converter ConvertOffice = convert_office"

definition convert_file :: "env \<Rightarrow> path \<Rightarrow> path \<Rightarrow> bool \<Rightarrow> world \<Rightarrow> outcome" where
  "convert_file e input_path output_path verbose w =
     (if \<not> path_exists w input_path
      then (Some (FileNotFoundError (''Input file not found: '' @ path_str input_path)), w)
      else case get_category input_path of
             Inl err \<Rightarrow>
               (Some (ValueError (''Unsupported input format: '' @ error_text err)), w)
           | Inr input_category \<Rightarrow>
               (case get_category output_path of
                  Inl err \<Rightarrow>
                    (Some (ValueError (''Unsupported output format: '' @ error_text err)), w)
                | Inr output_category \<Rightarrow>
                    if input_category \<noteq> output_category
                    then (Some (CategoryMismatchError
                            (''Cannot convert between different categories.\<newline>''
                             @ ''Input category: '' @ category_value input_category @ ''\<newline>''
                             @ ''Output category: '' @ category_value output_category @ ''\<newline>''
                             @ ''Only conversions within the same category are supported.'')),
                          w)
                    else
                      (let w1 = (if verbose
                                 then emit (Print (''Converting '' @ category_value input_category
                                                   @ '': '' @ path_name input_path
                                                   @ '' -> '' @ path_name output_path)) w
                                 else w)
                       in case dispatch input_category of
                            Some k \<Rightarrow> run_converter k e input_path output_path verbose w1
                          | None \<Rightarrow>
                              (Some (ConversionError
                                 (''No converter available for category: ''
                                  @ category_value input_category)), w1))))"

text \<open>The converters and the renames a trace records, in order.\<close>

fun invoked :: "event list \<Rightarrow> converter list" where
  "invoked [] = []"
| "invoked (Invoke k # evs) = k # invoked evs"
| "invoked (_ # evs) = invoked evs"

fun renames :: "event list \<Rightarrow> (path \<times> path) list" where
  "renames [] = []"
| "renames (Rename a b # evs) = (a, b) # renames evs"
| "renames (_ # evs) = renames evs"

fun executed :: "event list \<Rightarrow> string list list" where
  "executed [] = []"
| "executed (Exec c # evs) = c # executed evs"
| "executed (_ # evs) = executed evs"

section \<open>Normalization\<close>

lemma of_char_lower_char:
  "(of_char (lower_char c) :: nat) =
     (if (65 \<le> (of_char c :: nat) \<and> (of_char c :: nat) \<le> 90)
         \<or> (192 \<le> (of_char c :: nat) \<and> (of_char c :: nat) \<le> 222 \<and> (of_char c :: nat) \<noteq> 215)
      then of_char c + 32 else of_char c)"
  by (simp add: lower_char_def Let_def)

lemma lower_char_idem: "lower_char (lower_char c) = lower_char c"
  by (auto simp: lower_char_def Let_def)

lemma lower_idem: "lower (lower s) = lower s"
  by (simp add: lower_def lower_char_idem)

lemma lower_char_dot: "lower_char c = CHR ''.'' \<longleftrightarrow> c = CHR ''.''"
proof
  assume h: "lower_char c = CHR ''.''"
  have "(of_char (lower_char c) :: nat) = 46"
    by (simp add: h)
  then have "(of_char c :: nat) = 46"
    by (simp add: of_char_lower_char split: if_splits)
  then have "(of_char c :: nat) = of_char CHR ''.''"
    by simp
  then show "c = CHR ''.''"
    by (simp only: of_char_eq_iff)
next
  assume "c = CHR ''.''"
  then show "lower_char c = CHR ''.''"
    by (simp add: lower_char_def)
qed

lemma lower_char_of_dot: "lower_char CHR ''.'' = CHR ''.''"
  by (simp add: lower_char_def)

lemma lower_Nil: "lower [] = []"
  by (simp add: lower_def)

lemma lower_Cons: "lower (c # cs) = lower_char c # lower cs"
  by (simp add: lower_def)

lemma lower_jpg: "lower ''jpg'' = ''jpg''"
  by (simp add: lower_def lower_char_def)

lemma lstrip_dropWhile: "lstrip d s = dropWhile (\<lambda>c. c = d) s"
  by (induction s) auto

lemma lstrip_no_leading: "lstrip d s \<noteq> d # cs"
  by (induction s) auto

lemma lstrip_fixed: "(\<And>cs. s \<noteq> d # cs) \<Longrightarrow> lstrip d s = s"
  by (cases s) auto

lemma resolve_alias_eq: "resolve_alias x = (if x = ''jpeg'' then ''jpg'' else x)"
  by (simp add: resolve_alias_def EXTENSION_ALIASES_def)

lemma lower_no_leading_dot: "(\<And>cs. s \<noteq> CHR ''.'' # cs) \<Longrightarrow> lower s \<noteq> CHR ''.'' # cs'"
  by (cases s) (auto simp: lower_Nil lower_Cons lower_char_dot)

lemma normalize_no_leading_dot: "normalize_extension ext \<noteq> CHR ''.'' # cs"
proof -
  have "lower (lstrip CHR ''.'' ext) \<noteq> CHR ''.'' # cs"
    by (rule lower_no_leading_dot) (rule lstrip_no_leading)
  then show ?thesis
    by (auto simp: normalize_extension_def resolve_alias_eq)
qed

lemma normalize_idempotent: "normalize_extension (normalize_extension ext) = normalize_extension ext"
proof -
  let ?y = "normalize_extension ext"
  have strip: "lstrip CHR ''.'' ?y = ?y"
    by (rule lstrip_fixed) (rule normalize_no_leading_dot)
  have low: "lower ?y = ?y"
    by (simp add: normalize_extension_def resolve_alias_eq lower_idem lower_jpg)
  have "resolve_alias ?y = ?y"
    by (simp add: normalize_extension_def resolve_alias_eq)
  with strip low show ?thesis
    by (simp add: normalize_extension_def [of ?y])
qed

text \<open>
  C5, as amended. \<open>normalize_extension\<close> is total, and its result is: every leading
  dot stripped (not one), lowercased, the alias replaced by its canonical spelling. It
  agrees with the composition that strips a single leading separator exactly on the
  inputs that do not start with two dots.
\<close>

theorem normalize_extension_strips_every_dot:
  "normalize_extension ext = resolve_alias (lower (dropWhile (\<lambda>c. c = CHR ''.'') ext))
   \<and> (normalize_extension ext = spec_normalize ext \<longleftrightarrow> take 2 ext \<noteq> ''..'')"
proof
  show "normalize_extension ext = resolve_alias (lower (dropWhile (\<lambda>c. c = CHR ''.'') ext))"
    by (simp add: normalize_extension_def lstrip_dropWhile)
next
  show "normalize_extension ext = spec_normalize ext \<longleftrightarrow> take 2 ext \<noteq> ''..''"
  proof (cases ext)
    case Nil
    then show ?thesis
      by (simp add: normalize_extension_def spec_normalize_def strip_one_separator_def)
  next
    case (Cons c cs)
    note ext = Cons
    show ?thesis
    proof (cases "c = CHR ''.''")
      case False
      with ext show ?thesis
        by (simp add: normalize_extension_def spec_normalize_def strip_one_separator_def)
    next
      case dot1: True
      show ?thesis
      proof (cases cs)
        case Nil
        with ext dot1 show ?thesis
          by (simp add: normalize_extension_def spec_normalize_def strip_one_separator_def)
      next
        case (Cons c2 r)
        show ?thesis
        proof (cases "c2 = CHR ''.''")
          case False
          with ext dot1 Cons show ?thesis
            by (simp add: normalize_extension_def spec_normalize_def strip_one_separator_def)
        next
          case True
          have code: "normalize_extension ext = normalize_extension r"
            using ext dot1 Cons True by (simp add: normalize_extension_def)
          have "spec_normalize ext = resolve_alias (CHR ''.'' # lower r)"
            using ext dot1 Cons True
            by (simp add: spec_normalize_def strip_one_separator_def lower_Cons lower_char_of_dot)
          then have spec: "spec_normalize ext = CHR ''.'' # lower r"
            by (simp add: resolve_alias_eq)
          have "normalize_extension ext \<noteq> spec_normalize ext"
            unfolding code spec by (rule normalize_no_leading_dot)
          with ext dot1 Cons True show ?thesis
            by simp
        qed
      qed
    qed
  qed
qed

theorem normalize_extension_strips_every_dot_witness:
  "normalize_extension ''.JPEG'' = ''jpg''
   \<and> spec_normalize ''.JPEG'' = ''jpg''
   \<and> normalize_extension ''...Mp3'' = ''mp3''"
proof -
  have a: "lower ''JPEG'' = ''jpeg''"
    by code_simp
  have b: "lower ''Mp3'' = ''mp3''"
    by code_simp
  have c: "spec_normalize ''.JPEG'' = ''jpg''"
    by (simp add: spec_normalize_def strip_one_separator_def a resolve_alias_eq)
  show ?thesis
    using normalize_extension_strips_every_dot [of "''.JPEG''"]
      normalize_extension_strips_every_dot [of "''...Mp3''"]
    by (simp add: a b c resolve_alias_eq)
qed

text \<open>
  C5, as the specification states it, fails at \<open>..jpg\<close>: the code strips both dots,
  the stated composition only one.
\<close>

theorem normalize_extension_strip_one_counterexample:
  "normalize_extension ''..jpg'' \<noteq> spec_normalize ''..jpg''"
  by (simp add: normalize_extension_def spec_normalize_def strip_one_separator_def
      resolve_alias_eq lower_def lower_char_def)

text \<open>
  C6. On every key of the extension table, normalizing twice is normalizing once.
\<close>

theorem normalize_extension_idempotent_on_table:
  "x \<in> fst ` set EXTENSION_TO_CATEGORY \<Longrightarrow>
     normalize_extension (normalize_extension x) = normalize_extension x"
  by (rule normalize_idempotent)

theorem normalize_extension_idempotent_on_table_witness:
  "''jpeg'' \<in> fst ` set EXTENSION_TO_CATEGORY
   \<and> normalize_extension ''jpeg'' = ''jpg''
   \<and> normalize_extension (normalize_extension ''jpeg'') = normalize_extension ''jpeg''"
proof -
  have k: "''jpeg'' \<in> fst ` set EXTENSION_TO_CATEGORY"
    by (simp add: EXTENSION_TO_CATEGORY_def)
  have v: "normalize_extension ''jpeg'' = ''jpg''"
    by (simp add: normalize_extension_def resolve_alias_eq lower_def lower_char_def)
  show ?thesis
    using k v normalize_extension_idempotent_on_table [OF k] by simp
qed

section \<open>Classification\<close>

lemma supported_extensions_eq:
  "supported_extensions =
     [''avif'', ''csv'', ''doc'', ''docx'', ''gif'', ''heic'', ''icns'', ''jpeg'', ''jpg'',
      ''m4a'', ''mov'', ''mp3'', ''mp4'', ''odp'', ''ods'', ''odt'', ''ppt'', ''pptx'',
      ''rtf'', ''txt'', ''wav'', ''webp'', ''xls'', ''xlsm'', ''xlsx'']"
  by code_simp

lemma join_supported_extensions:
  "join '', '' supported_extensions =
     ''avif, csv, doc, docx, gif, heic, icns, jpeg, jpg, m4a, mov, mp3, mp4, odp, ods, odt, ppt, pptx, rtf, txt, wav, webp, xls, xlsm, xlsx''"
  by (simp add: supported_extensions_eq)

lemma supported_extensions_sorted:
  "sorted supported_extensions \<and> distinct supported_extensions
   \<and> set supported_extensions = fst ` set EXTENSION_TO_CATEGORY"
  by (simp add: supported_extensions_def)

lemma rfind_None: "rfind d s = None \<Longrightarrow> d \<notin> set s"
  by (induction s) (auto split: option.splits if_splits)

lemma rfind_Some:
  "rfind d s = Some i \<Longrightarrow> i < length s \<and> s ! i = d \<and> d \<notin> set (drop (Suc i) s)"
  by (induction s arbitrary: i) (auto split: option.splits if_splits dest: rfind_None)

text \<open>A suffix is empty, or a dot followed by at least one character and no further dot.\<close>

lemma path_suffix_shape:
  "path_suffix p = []
   \<or> (\<exists>x xs. path_suffix p = CHR ''.'' # x # xs \<and> CHR ''.'' \<notin> set (x # xs))"
proof (cases "rfind CHR ''.'' (path_name p)")
  case None
  then show ?thesis by (simp add: path_suffix_def)
next
  case (Some i)
  show ?thesis
  proof (cases "0 < i \<and> i < length (path_name p) - 1")
    case False
    with Some show ?thesis by (auto simp: path_suffix_def Let_def)
  next
    case True
    let ?n = "path_name p"
    from rfind_Some [OF Some]
    have a: "i < length ?n" "?n ! i = CHR ''.''" "CHR ''.'' \<notin> set (drop (Suc i) ?n)"
      by auto
    from True have b: "Suc i < length ?n" by arith
    have "drop i ?n = ?n ! i # ?n ! Suc i # drop (Suc (Suc i)) ?n"
      using a b by (simp add: Cons_nth_drop_Suc [symmetric])
    moreover have "drop (Suc i) ?n = ?n ! Suc i # drop (Suc (Suc i)) ?n"
      using b by (simp add: Cons_nth_drop_Suc [symmetric])
    moreover have "path_suffix p = drop i ?n"
      using Some True by (simp add: path_suffix_def Let_def)
    ultimately show ?thesis
      using a by auto
  qed
qed

lemma get_extension_no_suffix: "path_suffix p = [] \<Longrightarrow> get_extension p = []"
  by (simp add: get_extension_def normalize_extension_def lower_Nil resolve_alias_eq)

lemma empty_not_supported: "map_of EXTENSION_TO_CATEGORY [] = None"
  by (simp add: EXTENSION_TO_CATEGORY_def)

lemma get_category_no_suffix:
  "path_suffix p = [] \<Longrightarrow> get_category p = Inl (ValueError (unsupported_message []))"
  by (simp add: get_category_def get_extension_no_suffix empty_not_supported)

text \<open>
  C4. \<open>get_category\<close> returns the table's category for every path whose normalized
  extension is a key of the table. For every other path it raises the \<open>ValueError\<close>
  whose message names the extension (\<open>(no extension)\<close> when it is empty) and then
  lists all supported extensions, sorted and without repetition.
\<close>

theorem get_category_total_on_table:
  "(get_extension p \<in> fst ` set EXTENSION_TO_CATEGORY \<longrightarrow>
      (\<exists>c. get_category p = Inr c \<and> (get_extension p, c) \<in> set EXTENSION_TO_CATEGORY))
   \<and> (get_extension p \<notin> fst ` set EXTENSION_TO_CATEGORY \<longrightarrow>
        get_category p = Inl (ValueError
          (''Unsupported file format: ''
           @ (if get_extension p \<noteq> [] then ''.'' @ get_extension p else ''(no extension)'')
           @ ''\<newline>Supported formats: avif, csv, doc, docx, gif, heic, icns, jpeg, jpg, m4a, mov, mp3, mp4, odp, ods, odt, ppt, pptx, rtf, txt, wav, webp, xls, xlsm, xlsx'')))
   \<and> sorted supported_extensions \<and> distinct supported_extensions
   \<and> set supported_extensions = fst ` set EXTENSION_TO_CATEGORY"
proof (intro conjI impI)
  assume "get_extension p \<in> fst ` set EXTENSION_TO_CATEGORY"
  then obtain c where c: "map_of EXTENSION_TO_CATEGORY (get_extension p) = Some c"
    by (cases "map_of EXTENSION_TO_CATEGORY (get_extension p)")
       (auto simp only: map_of_eq_None_iff)
  then have "get_category p = Inr c"
    by (simp add: get_category_def)
  with map_of_SomeD [OF c]
  show "\<exists>c. get_category p = Inr c \<and> (get_extension p, c) \<in> set EXTENSION_TO_CATEGORY"
    by blast
next
  assume "get_extension p \<notin> fst ` set EXTENSION_TO_CATEGORY"
  then have "map_of EXTENSION_TO_CATEGORY (get_extension p) = None"
    by (simp add: map_of_eq_None_iff)
  then show "get_category p = Inl (ValueError
          (''Unsupported file format: ''
           @ (if get_extension p \<noteq> [] then ''.'' @ get_extension p else ''(no extension)'')
           @ ''\<newline>Supported formats: avif, csv, doc, docx, gif, heic, icns, jpeg, jpg, m4a, mov, mp3, mp4, odp, ods, odt, ppt, pptx, rtf, txt, wav, webp, xls, xlsm, xlsx''))"
    by (simp add: get_category_def unsupported_message_def join_supported_extensions)
qed (simp_all add: supported_extensions_sorted)

theorem get_category_total_on_table_witness:
  "get_extension \<lparr>root = True, segments = [''music'', ''Song.MP3'']\<rparr> = ''mp3''
   \<and> get_category \<lparr>root = True, segments = [''music'', ''Song.MP3'']\<rparr> = Inr AUDIO
   \<and> get_extension \<lparr>root = False, segments = [''notes.xyz'']\<rparr> = ''xyz''
   \<and> get_category \<lparr>root = False, segments = [''notes.xyz'']\<rparr> = Inl (ValueError
        ''Unsupported file format: .xyz\<newline>Supported formats: avif, csv, doc, docx, gif, heic, icns, jpeg, jpg, m4a, mov, mp3, mp4, odp, ods, odt, ppt, pptx, rtf, txt, wav, webp, xls, xlsm, xlsx'')"
proof -
  have a: "get_extension \<lparr>root = True, segments = [''music'', ''Song.MP3'']\<rparr> = ''mp3''"
    by code_simp
  have b: "get_extension \<lparr>root = False, segments = [''notes.xyz'']\<rparr> = ''xyz''"
    by code_simp
  have t: "fst ` set EXTENSION_TO_CATEGORY =
      {''mp3'', ''wav'', ''m4a'', ''heic'', ''jpg'', ''jpeg'', ''gif'', ''icns'', ''webp'',
       ''avif'', ''mov'', ''mp4'', ''csv'', ''ods'', ''xlsx'', ''xls'', ''xlsm'', ''odp'',
       ''ppt'', ''pptx'', ''docx'', ''doc'', ''odt'', ''txt'', ''rtf''}"
    by (simp add: EXTENSION_TO_CATEGORY_def)
  have m: "\<And>c. (''mp3'', c) \<in> set EXTENSION_TO_CATEGORY \<Longrightarrow> c = AUDIO"
    by (auto simp: EXTENSION_TO_CATEGORY_def)
  show ?thesis
    using get_category_total_on_table [of "\<lparr>root = True, segments = [''music'', ''Song.MP3'']\<rparr>"]
      get_category_total_on_table [of "\<lparr>root = False, segments = [''notes.xyz'']\<rparr>"]
    by (auto simp: a b t dest: m)
qed

text \<open>
  C10. A path whose name has no suffix is never classified: \<open>get_category\<close> raises the
  \<open>ValueError\<close> whose message says \<open>(no extension)\<close> where the extension would stand,
  and \<open>convert_file\<close> raises on it both as the input of an existing file and as the
  output, before any converter is entered (the world is returned as it was).
\<close>

theorem get_category_no_extension:
  "path_suffix p = [] \<Longrightarrow>
     get_category p = Inl (ValueError
        (''Unsupported file format: (no extension)'' @ ''\<newline>''
         @ ''Supported formats: '' @ join '', '' supported_extensions))
     \<and> (path_exists w p \<longrightarrow>
          convert_file e p other verbose w =
            (Some (ValueError
               (''Unsupported input format: ''
                @ ''Unsupported file format: (no extension)'' @ ''\<newline>''
                @ ''Supported formats: '' @ join '', '' supported_extensions)), w))
     \<and> (path_exists w other \<and> get_category other = Inr c \<longrightarrow>
          convert_file e other p verbose w =
            (Some (ValueError
               (''Unsupported output format: ''
                @ ''Unsupported file format: (no extension)'' @ ''\<newline>''
                @ ''Supported formats: '' @ join '', '' supported_extensions)), w))"
  by (simp add: get_category_no_suffix convert_file_def unsupported_message_def)

theorem get_category_no_extension_witness:
  "path_suffix \<lparr>root = True, segments = [''home'', ''README'']\<rparr> = []
   \<and> get_category \<lparr>root = True, segments = [''home'', ''README'']\<rparr> = Inl (ValueError
        ''Unsupported file format: (no extension)\<newline>Supported formats: avif, csv, doc, docx, gif, heic, icns, jpeg, jpg, m4a, mov, mp3, mp4, odp, ods, odt, ppt, pptx, rtf, txt, wav, webp, xls, xlsm, xlsx'')"
proof -
  have a: "path_suffix \<lparr>root = True, segments = [''home'', ''README'']\<rparr> = []"
    by code_simp
  show ?thesis
    using a get_category_no_extension [OF a]
    by (simp add: join_supported_extensions)
qed

section \<open>Traces of the converters\<close>

lemma resolve_File: "f p = Some (File n) \<Longrightarrow> resolve k f p = Some n"
  by (cases k) simp_all

lemma resolve_no_entry: "f p = None \<Longrightarrow> resolve k f p = None"
  by (cases k) simp_all

lemma resolve_entry: "resolve k f p \<noteq> None \<Longrightarrow> f p \<noteq> None"
  by (cases k) (auto split: option.splits)

lemma invoked_append: "invoked (xs @ ys) = invoked xs @ invoked ys"
  by (induction xs rule: invoked.induct) auto

lemma renames_append: "renames (xs @ ys) = renames xs @ renames ys"
  by (induction xs rule: renames.induct) auto

lemma executed_append: "executed (xs @ ys) = executed xs @ executed ys"
  by (induction xs rule: executed.induct) auto

lemma trace_emit: "trace (emit ev w) = trace w @ [ev]"
  by (simp add: emit_def)

lemma fs_emit: "fs (emit ev w) = fs w"
  by (simp add: emit_def)

lemma run_command_trace:
  "trace (snd (run_command e cmd verbose tool_name w)) =
     trace w @ (if verbose then [Print (''Running: '' @ join '' '' cmd)] else []) @ [Exec cmd]"
  by (simp add: run_command_def Let_def trace_emit split: prod.splits completed.splits)

lemma run_command_invoked:
  "invoked (trace (snd (run_command e cmd verbose tool_name w))) = invoked (trace w)"
  by (simp add: run_command_trace invoked_append)

lemma convert_audio_invoked:
  "invoked (trace (snd (convert_audio e i o' v w))) = invoked (trace w) @ [ConvertAudio]"
  by (simp add: convert_audio_def Let_def run_command_invoked trace_emit invoked_append)

lemma convert_video_invoked:
  "invoked (trace (snd (convert_video e i o' v w))) = invoked (trace w) @ [ConvertVideo]"
  by (simp add: convert_video_def Let_def run_command_invoked trace_emit invoked_append)

lemma convert_image_invoked:
  "invoked (trace (snd (convert_image e i o' v w))) = invoked (trace w) @ [ConvertImage]"
  by (simp add: convert_image_def Let_def run_command_invoked trace_emit invoked_append)

lemma path_rename_invoked:
  "invoked (trace (snd (path_rename e a b w))) = invoked (trace w)"
  by (simp add: path_rename_def trace_emit invoked_append split: option.splits)

lemma convert_office_invoked:
  "invoked (trace (snd (convert_office e i o' v w))) = invoked (trace w) @ [ConvertOffice]"
proof -
  let ?w0 = "emit (Invoke ConvertOffice) w"
  let ?r = "run_command e (office_cmd i o') v ''LibreOffice'' ?w0"
  have r: "invoked (trace (snd ?r)) = invoked (trace w) @ [ConvertOffice]"
    by (simp add: run_command_invoked trace_emit invoked_append)
  show ?thesis
  proof (cases ?r)
    case (Pair err w1)
    with r have w1: "invoked (trace w1) = invoked (trace w) @ [ConvertOffice]"
      by simp
    show ?thesis
      using Pair w1
      by (cases err)
         (simp_all add: convert_office_def Let_def trace_emit invoked_append path_rename_invoked)
  qed
qed

lemma run_converter_invoked:
  "invoked (trace (snd (run_converter k e i o' v w))) = invoked (trace w) @ [k]"
  by (cases k)
     (simp_all add: convert_audio_invoked convert_video_invoked convert_image_invoked
        convert_office_invoked)

lemma run_command_executed:
  "executed (trace (snd (run_command e cmd verbose tool_name w))) = executed (trace w) @ [cmd]"
  by (simp add: run_command_trace executed_append)

lemma run_command_renames:
  "renames (trace (snd (run_command e cmd verbose tool_name w))) = renames (trace w)"
  by (simp add: run_command_trace renames_append)


lemma path_rename_executed:
  "executed (trace (snd (path_rename e a b w))) = executed (trace w)"
  by (simp add: path_rename_def trace_emit executed_append split: option.splits)

lemma convert_office_executed:
  "which e ''soffice'' \<Longrightarrow>
     executed (trace (snd (convert_office e i o' v w))) = executed (trace w) @ [office_cmd i o']"
proof -
  assume tool: "which e ''soffice''"
  let ?r = "run_command e (office_cmd i o') v ''LibreOffice'' (emit (Invoke ConvertOffice) w)"
  have r: "executed (trace (snd ?r)) = executed (trace w) @ [office_cmd i o']"
    by (simp add: run_command_executed trace_emit executed_append)
  show ?thesis
  proof (cases ?r)
    case (Pair err w1)
    with r have "executed (trace w1) = executed (trace w) @ [office_cmd i o']"
      by simp
    with Pair tool show ?thesis
      by (cases err)
         (simp_all add: convert_office_def check_tool_available_def Let_def trace_emit
            executed_append path_rename_executed)
  qed
qed

text \<open>
  C1. When the input file exists and both paths classify, to different categories,
  \<open>convert_file\<close> raises the \<open>CategoryMismatchError\<close> whose message names both
  categories, and returns the world as it found it: no converter is entered and no
  process is executed, whatever the environment.
\<close>

theorem convert_file_category_mismatch:
  "path_exists w input_path \<Longrightarrow> get_category input_path = Inr ic \<Longrightarrow>
   get_category output_path = Inr oc \<Longrightarrow> ic \<noteq> oc \<Longrightarrow>
     convert_file e input_path output_path verbose w =
       (Some (CategoryMismatchError
          (''Cannot convert between different categories.\<newline>''
           @ ''Input category: '' @ category_value ic @ ''\<newline>''
           @ ''Output category: '' @ category_value oc @ ''\<newline>''
           @ ''Only conversions within the same category are supported.'')), w)
     \<and> invoked (trace (snd (convert_file e input_path output_path verbose w))) = invoked (trace w)
     \<and> executed (trace (snd (convert_file e input_path output_path verbose w))) = executed (trace w)"
  by (simp add: convert_file_def)

theorem convert_file_category_mismatch_witness:
  "convert_file
     \<lparr>which = (\<lambda>t. True), proc = (\<lambda>c f. (Completed 0 [] [], f)), rename_error = (\<lambda>a b f. None)\<rparr>
     \<lparr>root = True, segments = [''music'', ''song.mp3'']\<rparr>
     \<lparr>root = True, segments = [''music'', ''photo.jpg'']\<rparr>
     False
     \<lparr>fs = [\<lparr>root = True, segments = [''music'', ''song.mp3'']\<rparr> \<mapsto> File 1], trace = []\<rparr>
   = (Some (CategoryMismatchError
        ''Cannot convert between different categories.\<newline>Input category: audio\<newline>Output category: image\<newline>Only conversions within the same category are supported.''),
      \<lparr>fs = [\<lparr>root = True, segments = [''music'', ''song.mp3'']\<rparr> \<mapsto> File 1], trace = []\<rparr>)"
proof -
  have a: "get_category \<lparr>root = True, segments = [''music'', ''song.mp3'']\<rparr> = Inr AUDIO"
    by code_simp
  have b: "get_category \<lparr>root = True, segments = [''music'', ''photo.jpg'']\<rparr> = Inr IMAGE"
    by code_simp
  have c: "path_exists
      \<lparr>fs = [\<lparr>root = True, segments = [''music'', ''song.mp3'']\<rparr> \<mapsto> File 1], trace = []\<rparr>
      \<lparr>root = True, segments = [''music'', ''song.mp3'']\<rparr>"
    by (simp add: path_exists_def resolve_File)
  have d: "AUDIO \<noteq> IMAGE"
    by simp
  show ?thesis
    using convert_file_category_mismatch
      [OF c a b d, where verbose = False
         and e = "\<lparr>which = (\<lambda>t. True), proc = (\<lambda>c f. (Completed 0 [] [], f)), rename_error = (\<lambda>a b f. None)\<rparr>"]
    by simp
qed

lemma dispatch_cases:
  "dispatch AUDIO = Some ConvertAudio" "dispatch VIDEO = Some ConvertVideo"
  "dispatch IMAGE = Some ConvertImage" "dispatch DOCUMENT = Some ConvertOffice"
  "dispatch SPREADSHEET = Some ConvertOffice" "dispatch PRESENTATION = Some ConvertOffice"
  by (simp_all add: dispatch_def)

text \<open>
  C2, as amended. When the input file exists and both paths classify to the same
  category, \<open>convert_file\<close> is the run of one converter, the one its category selects:
  \<open>convert_audio\<close> for audio and \<open>convert_video\<close> for video (the two FFmpeg
  converters), \<open>convert_image\<close> for image, \<open>convert_office\<close> for document, spreadsheet
  and presentation. The trace gains the entry of that converter and of no other.
\<close>

theorem convert_file_routes_by_category:
  assumes "path_exists w input_path"
    and "get_category input_path = Inr c"
    and "get_category output_path = Inr c"
  shows "let w1 = (if verbose
                   then emit (Print (''Converting '' @ category_value c @ '': ''
                                     @ path_name input_path @ '' -> '' @ path_name output_path)) w
                   else w)
         in (c = AUDIO \<longrightarrow>
               convert_file e input_path output_path verbose w =
                 convert_audio e input_path output_path verbose w1)
          \<and> (c = VIDEO \<longrightarrow>
               convert_file e input_path output_path verbose w =
                 convert_video e input_path output_path verbose w1)
          \<and> (c = IMAGE \<longrightarrow>
               convert_file e input_path output_path verbose w =
                 convert_image e input_path output_path verbose w1)
          \<and> (c = DOCUMENT \<or> c = SPREADSHEET \<or> c = PRESENTATION \<longrightarrow>
               convert_file e input_path output_path verbose w =
                 convert_office e input_path output_path verbose w1)
          \<and> invoked (trace (snd (convert_file e input_path output_path verbose w))) =
               invoked (trace w)
               @ [case c of AUDIO \<Rightarrow> ConvertAudio | VIDEO \<Rightarrow> ConvertVideo
                  | IMAGE \<Rightarrow> ConvertImage | DOCUMENT \<Rightarrow> ConvertOffice
                  | SPREADSHEET \<Rightarrow> ConvertOffice | PRESENTATION \<Rightarrow> ConvertOffice]"
proof -
  let ?w1 = "if verbose
             then emit (Print (''Converting '' @ category_value c @ '': ''
                               @ path_name input_path @ '' -> '' @ path_name output_path)) w
             else w"
  have pre: "invoked (trace ?w1) = invoked (trace w)"
    by (simp add: trace_emit invoked_append)
  have run: "convert_file e input_path output_path verbose w =
      (case dispatch c of
         Some k \<Rightarrow> run_converter k e input_path output_path verbose ?w1
       | None \<Rightarrow> (Some (ConversionError
                    (''No converter available for category: '' @ category_value c)), ?w1))"
    using assms by (simp add: convert_file_def Let_def)
  show ?thesis
    unfolding Let_def run
    by (cases c)
       (simp_all add: dispatch_cases pre convert_audio_invoked convert_video_invoked
          convert_image_invoked convert_office_invoked)
qed

theorem convert_file_routes_by_category_witness:
  "convert_file
     \<lparr>which = (\<lambda>t. True), proc = (\<lambda>c f. (Completed 0 [] [], f)), rename_error = (\<lambda>a b f. None)\<rparr>
     \<lparr>root = True, segments = [''music'', ''song.mp3'']\<rparr>
     \<lparr>root = True, segments = [''music'', ''song.wav'']\<rparr>
     False
     \<lparr>fs = [\<lparr>root = True, segments = [''music'', ''song.mp3'']\<rparr> \<mapsto> File 1], trace = []\<rparr>
   = convert_audio
     \<lparr>which = (\<lambda>t. True), proc = (\<lambda>c f. (Completed 0 [] [], f)), rename_error = (\<lambda>a b f. None)\<rparr>
     \<lparr>root = True, segments = [''music'', ''song.mp3'']\<rparr>
     \<lparr>root = True, segments = [''music'', ''song.wav'']\<rparr>
     False
     \<lparr>fs = [\<lparr>root = True, segments = [''music'', ''song.mp3'']\<rparr> \<mapsto> File 1], trace = []\<rparr>
   \<and> invoked (trace (snd (convert_file
       \<lparr>which = (\<lambda>t. True), proc = (\<lambda>c f. (Completed 0 [] [], f)), rename_error = (\<lambda>a b f. None)\<rparr>
       \<lparr>root = True, segments = [''music'', ''song.mp3'']\<rparr>
       \<lparr>root = True, segments = [''music'', ''song.wav'']\<rparr>
       False
       \<lparr>fs = [\<lparr>root = True, segments = [''music'', ''song.mp3'']\<rparr> \<mapsto> File 1], trace = []\<rparr>)))
     = [ConvertAudio]"
proof -
  have a: "get_category \<lparr>root = True, segments = [''music'', ''song.mp3'']\<rparr> = Inr AUDIO"
    by code_simp
  have b: "get_category \<lparr>root = True, segments = [''music'', ''song.wav'']\<rparr> = Inr AUDIO"
    by code_simp
  have c: "path_exists
      \<lparr>fs = [\<lparr>root = True, segments = [''music'', ''song.mp3'']\<rparr> \<mapsto> File 1], trace = []\<rparr>
      \<lparr>root = True, segments = [''music'', ''song.mp3'']\<rparr>"
    by (simp add: path_exists_def resolve_File)
  show ?thesis
    using convert_file_routes_by_category
      [OF c a b, where verbose = False
         and e = "\<lparr>which = (\<lambda>t. True), proc = (\<lambda>c f. (Completed 0 [] [], f)), rename_error = (\<lambda>a b f. None)\<rparr>"]
    by (simp add: Let_def convert_audio_invoked)
qed

text \<open>
  C2, as stated, asks nothing of the input file. When it does not exist,
  \<open>convert_file\<close> raises \<open>FileNotFoundError\<close> before it classifies anything, and no
  converter is entered, although both paths classify to the same category.
\<close>

theorem convert_file_missing_input_counterexample:
  "get_category \<lparr>root = True, segments = [''music'', ''song.mp3'']\<rparr> = Inr AUDIO
   \<and> get_category \<lparr>root = True, segments = [''music'', ''song.wav'']\<rparr> = Inr AUDIO
   \<and> convert_file
       \<lparr>which = (\<lambda>t. True), proc = (\<lambda>c f. (Completed 0 [] [], f)), rename_error = (\<lambda>a b f. None)\<rparr>
       \<lparr>root = True, segments = [''music'', ''song.mp3'']\<rparr>
       \<lparr>root = True, segments = [''music'', ''song.wav'']\<rparr>
       False
       \<lparr>fs = Map.empty, trace = []\<rparr>
     = (Some (FileNotFoundError ''Input file not found: /music/song.mp3''),
        \<lparr>fs = Map.empty, trace = []\<rparr>)"
proof -
  have a: "get_category \<lparr>root = True, segments = [''music'', ''song.mp3'']\<rparr> = Inr AUDIO"
    by code_simp
  have b: "get_category \<lparr>root = True, segments = [''music'', ''song.wav'']\<rparr> = Inr AUDIO"
    by code_simp
  have s: "path_str \<lparr>root = True, segments = [''music'', ''song.mp3'']\<rparr> = ''/music/song.mp3''"
    by code_simp
  show ?thesis
    by (simp add: a b s convert_file_def path_exists_def resolve_no_entry)
qed

text \<open>
  C7. A converter whose tool \<open>shutil.which\<close> does not resolve raises the
  \<open>ToolNotFoundError\<close> that names the tool, and the world it leaves differs from the
  one it found by the mark of its own entry only: the files are the same, nothing was
  executed and nothing renamed. (The command line's \<open>main\<close> creates the parent directory
  of the output before it calls \<open>convert_file\<close>; that step is no part of a converter.)
\<close>

theorem missing_tool_raises_first:
  "(\<not> which e ''ffmpeg'' \<longrightarrow>
      convert_audio e input_path output_path verbose w =
        (Some (ToolNotFoundError ''FFmpeg is required for audio conversion. Please install it.''),
         w\<lparr>trace := trace w @ [Invoke ConvertAudio]\<rparr>)
      \<and> convert_video e input_path output_path verbose w =
        (Some (ToolNotFoundError ''FFmpeg is required for video conversion. Please install it.''),
         w\<lparr>trace := trace w @ [Invoke ConvertVideo]\<rparr>))
   \<and> (\<not> which e ''magick'' \<longrightarrow>
      convert_image e input_path output_path verbose w =
        (Some (ToolNotFoundError ''ImageMagick is required for image conversion. Please install it.''),
         w\<lparr>trace := trace w @ [Invoke ConvertImage]\<rparr>))
   \<and> (\<not> which e ''soffice'' \<longrightarrow>
      convert_office e input_path output_path verbose w =
        (Some (ToolNotFoundError
           ''LibreOffice is required for office document conversion. Please install it.''),
         w\<lparr>trace := trace w @ [Invoke ConvertOffice]\<rparr>))"
  by (simp add: convert_audio_def convert_video_def convert_image_def convert_office_def
      check_tool_available_def emit_def)

theorem missing_tool_raises_first_witness:
  "convert_video
     \<lparr>which = (\<lambda>t. False), proc = (\<lambda>c f. (NotFound, f)), rename_error = (\<lambda>a b f. None)\<rparr>
     \<lparr>root = True, segments = [''clips'', ''clip.mov'']\<rparr>
     \<lparr>root = True, segments = [''clips'', ''clip.mp4'']\<rparr>
     False
     \<lparr>fs = [\<lparr>root = True, segments = [''clips'', ''clip.mov'']\<rparr> \<mapsto> File 1], trace = []\<rparr>
   = (Some (ToolNotFoundError ''FFmpeg is required for video conversion. Please install it.''),
      \<lparr>fs = [\<lparr>root = True, segments = [''clips'', ''clip.mov'']\<rparr> \<mapsto> File 1],
       trace = [Invoke ConvertVideo]\<rparr>)"
  using missing_tool_raises_first
    [of "\<lparr>which = (\<lambda>t. False), proc = (\<lambda>c f. (NotFound, f)), rename_error = (\<lambda>a b f. None)\<rparr>"
        "\<lparr>root = True, segments = [''clips'', ''clip.mov'']\<rparr>"
        "\<lparr>root = True, segments = [''clips'', ''clip.mp4'']\<rparr>"
        False
        "\<lparr>fs = [\<lparr>root = True, segments = [''clips'', ''clip.mov'']\<rparr> \<mapsto> File 1], trace = []\<rparr>"]
  by simp

lemma run_command_error:
  "fst (run_command e cmd verbose tool_name w) = Some (ConversionError m) \<Longrightarrow>
     \<exists>r. m = tool_name @ '' failed with exit code '' @ r"
  by (auto simp: run_command_def Let_def split: prod.splits completed.splits if_splits)

lemma path_rename_error: "fst (path_rename e a b w) \<noteq> Some (ConversionError m)"
  by (simp add: path_rename_def split: option.splits)

lemma convert_audio_error:
  "fst (convert_audio e i o' v w) = Some (ConversionError m) \<Longrightarrow> hd m \<in> {CHR ''F'', CHR ''U''}"
  by (auto simp: convert_audio_def Let_def split: if_splits dest!: run_command_error)

lemma convert_video_error:
  "fst (convert_video e i o' v w) = Some (ConversionError m) \<Longrightarrow> hd m \<in> {CHR ''F'', CHR ''U''}"
  by (auto simp: convert_video_def Let_def split: if_splits dest!: run_command_error)

lemma convert_image_error:
  "fst (convert_image e i o' v w) = Some (ConversionError m) \<Longrightarrow> hd m = CHR ''I''"
  by (auto simp: convert_image_def Let_def split: if_splits dest!: run_command_error)

lemma convert_office_error:
  "fst (convert_office e i o' v w) = Some (ConversionError m) \<Longrightarrow> hd m = CHR ''L''"
proof -
  assume h: "fst (convert_office e i o' v w) = Some (ConversionError m)"
  let ?r = "run_command e (office_cmd i o') v ''LibreOffice'' (emit (Invoke ConvertOffice) w)"
  show ?thesis
  proof (cases ?r)
    case (Pair err w1)
    show ?thesis
    proof (cases err)
      case None
      with h Pair show ?thesis
        by (auto simp: convert_office_def Let_def path_rename_error split: if_splits)
    next
      case (Some x)
      with h Pair have "fst ?r = Some (ConversionError m)"
        by (auto simp: convert_office_def Let_def split: if_splits)
      from run_command_error [OF this] show ?thesis
        by auto
    qed
  qed
qed

lemma run_converter_error:
  "fst (run_converter k e i o' v w) = Some (ConversionError m) \<Longrightarrow>
     hd m \<in> {CHR ''F'', CHR ''U'', CHR ''I'', CHR ''L''}"
  by (cases k)
     (auto dest: convert_audio_error convert_video_error convert_image_error convert_office_error)

text \<open>
  C8. Every one of the six categories takes one of the four converter branches, so the
  trailing \<open>else\<close> of \<open>convert_file\<close> is never taken: no call of \<open>convert_file\<close> ends
  in its "No converter available" error.
\<close>

theorem dispatch_exhaustive:
  "dispatch c \<noteq> None
   \<and> fst (convert_file e input_path output_path verbose w) \<noteq>
       Some (ConversionError (''No converter available for category: '' @ x))"
proof
  show "dispatch c \<noteq> None"
    by (cases c) (simp_all add: dispatch_cases)
next
  show "fst (convert_file e input_path output_path verbose w) \<noteq>
       Some (ConversionError (''No converter available for category: '' @ x))"
  proof
    assume h: "fst (convert_file e input_path output_path verbose w) =
       Some (ConversionError (''No converter available for category: '' @ x))"
    then obtain ic k w1 where "dispatch ic = Some k \<or> dispatch ic = None"
      and "fst (run_converter k e input_path output_path verbose w1) =
       Some (ConversionError (''No converter available for category: '' @ x)) \<or> dispatch ic = None"
      by (auto simp: convert_file_def Let_def split: if_splits sum.splits option.splits)
    moreover have "dispatch ic \<noteq> None"
      by (cases ic) (simp_all add: dispatch_cases)
    ultimately have "fst (run_converter k e input_path output_path verbose w1) =
       Some (ConversionError (''No converter available for category: '' @ x))"
      by simp
    from run_converter_error [OF this] show False
      by simp
  qed
qed

theorem dispatch_exhaustive_witness:
  "dispatch SPREADSHEET = Some ConvertOffice
   \<and> fst (convert_file
       \<lparr>which = (\<lambda>t. True), proc = (\<lambda>c f. (Completed 1 [] [], f)), rename_error = (\<lambda>a b f. None)\<rparr>
       \<lparr>root = False, segments = [''table.csv'']\<rparr>
       \<lparr>root = False, segments = [''table.xlsx'']\<rparr>
       False
       \<lparr>fs = [\<lparr>root = False, segments = [''table.csv'']\<rparr> \<mapsto> File 1], trace = []\<rparr>)
     \<noteq> Some (ConversionError ''No converter available for category: spreadsheet'')"
  using dispatch_exhaustive
    [of SPREADSHEET
        "\<lparr>which = (\<lambda>t. True), proc = (\<lambda>c f. (Completed 1 [] [], f)), rename_error = (\<lambda>a b f. None)\<rparr>"
        "\<lparr>root = False, segments = [''table.csv'']\<rparr>"
        "\<lparr>root = False, segments = [''table.xlsx'']\<rparr>"
        False
        "\<lparr>fs = [\<lparr>root = False, segments = [''table.csv'']\<rparr> \<mapsto> File 1], trace = []\<rparr>"
        "''spreadsheet''"]
  by (simp add: dispatch_cases)

section \<open>The office converter\<close>

lemma office_target_ext_drop: "office_target_ext p = drop 1 (path_suffix p)"
  using path_suffix_shape [of p] by (auto simp: office_target_ext_def)

lemma office_cmd_eq:
  "office_cmd input_path output_path =
     [''soffice'', ''--headless'', ''--convert-to'', drop 1 (path_suffix output_path),
      ''--outdir'', path_str (path_parent output_path), path_str input_path]"
  by (simp add: office_cmd_def office_target_ext_drop)

lemma office_expected_output_eq:
  "office_expected_output input_path output_path =
     truediv (path_parent output_path)
       (path_stem input_path @ ''.'' @ drop 1 (path_suffix output_path))"
  by (simp add: office_expected_output_def office_target_ext_drop)

lemma run_command_completed:
  "fst (proc e cmd (fs w)) = Completed 0 out err \<Longrightarrow>
     run_command e cmd verbose tool_name w =
       (None, emit (Exec cmd)
                ((if verbose then emit (Print (''Running: '' @ join '' '' cmd)) w else w)
                   \<lparr>fs := snd (proc e cmd (fs w))\<rparr>))"
  by (cases "proc e cmd (fs w)") (simp add: run_command_def Let_def fs_emit)

text \<open>What \<open>convert_office\<close> does once the tool has exited with status 0.\<close>

lemma convert_office_after_tool:
  assumes "which e ''soffice''"
    and "fst (proc e (office_cmd input_path output_path) (fs w)) = Completed 0 out err"
  shows "\<exists>w1. fs w1 = snd (proc e (office_cmd input_path output_path) (fs w))
     \<and> renames (trace w1) = renames (trace w)
     \<and> convert_office e input_path output_path verbose w =
         (if \<not> path_exists w1 (office_expected_output input_path output_path)
          then (Some (ConversionError
                  (''LibreOffice did not produce expected output file: ''
                   @ path_str (office_expected_output input_path output_path))), w1)
          else if office_expected_output input_path output_path \<noteq> output_path
          then path_rename e (office_expected_output input_path output_path) output_path
                 (if verbose
                  then emit (Print (''Renaming ''
                          @ path_str (office_expected_output input_path output_path)
                          @ '' to '' @ path_str output_path)) w1
                  else w1)
          else (None, w1))"
proof -
  let ?w0 = "emit (Invoke ConvertOffice) w"
  let ?c = "office_cmd input_path output_path"
  let ?w1 = "emit (Exec ?c)
               ((if verbose then emit (Print (''Running: '' @ join '' '' ?c)) ?w0 else ?w0)
                  \<lparr>fs := snd (proc e ?c (fs w))\<rparr>)"
  from assms(2) have "fst (proc e ?c (fs ?w0)) = Completed 0 out err"
    by (simp add: fs_emit)
  from run_command_completed [OF this, of verbose "''LibreOffice''"]
  have r: "run_command e ?c verbose ''LibreOffice'' ?w0 = (None, ?w1)"
    by (simp add: fs_emit)
  have "fs ?w1 = snd (proc e ?c (fs w))"
    by (simp add: emit_def)
  moreover have "renames (trace ?w1) = renames (trace w)"
    by (simp add: emit_def renames_append)
  moreover have "convert_office e input_path output_path verbose w =
         (if \<not> path_exists ?w1 (office_expected_output input_path output_path)
          then (Some (ConversionError
                  (''LibreOffice did not produce expected output file: ''
                   @ path_str (office_expected_output input_path output_path))), ?w1)
          else if office_expected_output input_path output_path \<noteq> output_path
          then path_rename e (office_expected_output input_path output_path) output_path
                 (if verbose
                  then emit (Print (''Renaming ''
                          @ path_str (office_expected_output input_path output_path)
                          @ '' to '' @ path_str output_path)) ?w1
                  else ?w1)
          else (None, ?w1))"
    using assms(1) by (simp add: convert_office_def check_tool_available_def r Let_def)
  ultimately show ?thesis
    by blast
qed

text \<open>
  C9. \<open>convert_office\<close> takes the target format from the literal suffix of the output
  path with its leading dot dropped, and neither lowercases it nor resolves an alias,
  while the classification of the same path does both. The command it executes carries
  that literal text as its format argument, and after the tool has exited with status 0
  it looks for the artifact at output directory / (stem of the input + \<open>.\<close> + that
  literal text): it raises its "did not produce" error exactly when nothing exists
  there, and never when something does.
\<close>

theorem office_target_keeps_case:
  "let target_ext = drop 1 (path_suffix output_path);
       cmd = [''soffice'', ''--headless'', ''--convert-to'', target_ext,
              ''--outdir'', path_str (path_parent output_path), path_str input_path];
       expected_output = truediv (path_parent output_path)
                           (path_stem input_path @ ''.'' @ target_ext);
       produced = snd (proc e cmd (fs w))
   in get_extension output_path = resolve_alias (lower target_ext)
      \<and> (which e ''soffice'' \<longrightarrow>
           executed (trace (snd (convert_office e input_path output_path verbose w))) =
             executed (trace w) @ [cmd])
      \<and> (which e ''soffice'' \<and> fst (proc e cmd (fs w)) = Completed 0 out err \<longrightarrow>
           (fst (convert_office e input_path output_path verbose w) =
              Some (ConversionError
                (''LibreOffice did not produce expected output file: ''
                 @ path_str expected_output))
            \<longleftrightarrow> resolve 40 produced expected_output = None)
           \<and> (resolve 40 produced expected_output \<noteq> None \<longrightarrow>
                fst (convert_office e input_path output_path verbose w)
                  \<noteq> Some (ConversionError m)))"
proof -
  have a: "get_extension output_path = resolve_alias (lower (drop 1 (path_suffix output_path)))"
    by (simp add: get_extension_def normalize_extension_def office_target_ext_def [symmetric]
        office_target_ext_drop)
  have b: "which e ''soffice'' \<Longrightarrow>
      executed (trace (snd (convert_office e input_path output_path verbose w))) =
        executed (trace w) @ [office_cmd input_path output_path]"
    by (rule convert_office_executed)
  have c: "(fst (convert_office e input_path output_path verbose w) =
              Some (ConversionError
                (''LibreOffice did not produce expected output file: ''
                 @ path_str (office_expected_output input_path output_path)))
            \<longleftrightarrow> resolve 40 (snd (proc e (office_cmd input_path output_path) (fs w)))
                  (office_expected_output input_path output_path) = None)
           \<and> (resolve 40 (snd (proc e (office_cmd input_path output_path) (fs w)))
                  (office_expected_output input_path output_path) \<noteq> None \<longrightarrow>
                fst (convert_office e input_path output_path verbose w)
                  \<noteq> Some (ConversionError m))"
    if "which e ''soffice''"
      and "fst (proc e (office_cmd input_path output_path) (fs w)) = Completed 0 out err"
  proof -
    from convert_office_after_tool [OF that, of verbose]
    obtain w1 where "fs w1 = snd (proc e (office_cmd input_path output_path) (fs w))"
      and "convert_office e input_path output_path verbose w =
         (if \<not> path_exists w1 (office_expected_output input_path output_path)
          then (Some (ConversionError
                  (''LibreOffice did not produce expected output file: ''
                   @ path_str (office_expected_output input_path output_path))), w1)
          else if office_expected_output input_path output_path \<noteq> output_path
          then path_rename e (office_expected_output input_path output_path) output_path
                 (if verbose
                  then emit (Print (''Renaming ''
                          @ path_str (office_expected_output input_path output_path)
                          @ '' to '' @ path_str output_path)) w1
                  else w1)
          else (None, w1))"
      by blast
    then show ?thesis
      by (auto simp: path_exists_def path_rename_error)
  qed
  show ?thesis
    unfolding Let_def office_cmd_eq [symmetric] office_expected_output_eq [symmetric]
    using a b c by blast
qed

theorem office_target_keeps_case_witness:
  "get_extension \<lparr>root = True, segments = [''out'', ''final.DOCX'']\<rparr> = ''docx''
   \<and> executed (trace (snd (convert_office
        \<lparr>which = (\<lambda>t. True),
         proc = (\<lambda>c f. (Completed 0 [] [],
                         f(\<lparr>root = True, segments = [''out'', ''report.docx'']\<rparr> \<mapsto> File 2))),
         rename_error = (\<lambda>a b f. None)\<rparr>
        \<lparr>root = True, segments = [''in'', ''report.odt'']\<rparr>
        \<lparr>root = True, segments = [''out'', ''final.DOCX'']\<rparr>
        False
        \<lparr>fs = [\<lparr>root = True, segments = [''in'', ''report.odt'']\<rparr> \<mapsto> File 1], trace = []\<rparr>)))
      = [[''soffice'', ''--headless'', ''--convert-to'', ''DOCX'', ''--outdir'', ''/out'',
          ''/in/report.odt'']]
   \<and> fst (convert_office
        \<lparr>which = (\<lambda>t. True),
         proc = (\<lambda>c f. (Completed 0 [] [],
                         f(\<lparr>root = True, segments = [''out'', ''report.docx'']\<rparr> \<mapsto> File 2))),
         rename_error = (\<lambda>a b f. None)\<rparr>
        \<lparr>root = True, segments = [''in'', ''report.odt'']\<rparr>
        \<lparr>root = True, segments = [''out'', ''final.DOCX'']\<rparr>
        False
        \<lparr>fs = [\<lparr>root = True, segments = [''in'', ''report.odt'']\<rparr> \<mapsto> File 1], trace = []\<rparr>)
      = Some (ConversionError
          ''LibreOffice did not produce expected output file: /out/report.DOCX'')"
proof -
  have s: "path_suffix \<lparr>root = True, segments = [''out'', ''final.DOCX'']\<rparr> = ''.DOCX''"
    by code_simp
  have l: "lower ''DOCX'' = ''docx''"
    by code_simp
  have st: "path_stem \<lparr>root = True, segments = [''in'', ''report.odt'']\<rparr> = ''report''"
    by code_simp
  have d: "truediv (path_parent \<lparr>root = True, segments = [''out'', ''final.DOCX'']\<rparr>) ''report.DOCX''
      = \<lparr>root = True, segments = [''out'', ''report.DOCX'']\<rparr>"
    by code_simp
  have p: "path_str (path_parent \<lparr>root = True, segments = [''out'', ''final.DOCX'']\<rparr>) = ''/out''"
    by code_simp
  have i: "path_str \<lparr>root = True, segments = [''in'', ''report.odt'']\<rparr> = ''/in/report.odt''"
    by code_simp
  have x: "path_str \<lparr>root = True, segments = [''out'', ''report.DOCX'']\<rparr> = ''/out/report.DOCX''"
    by code_simp
  show ?thesis
    using office_target_keeps_case
      [where output_path = "\<lparr>root = True, segments = [''out'', ''final.DOCX'']\<rparr>"
         and input_path = "\<lparr>root = True, segments = [''in'', ''report.odt'']\<rparr>"
         and e = "\<lparr>which = (\<lambda>t. True),
                  proc = (\<lambda>c f. (Completed 0 [] [],
                         f(\<lparr>root = True, segments = [''out'', ''report.docx'']\<rparr> \<mapsto> File 2))),
                  rename_error = (\<lambda>a b f. None)\<rparr>"
         and verbose = False and out = "[]" and err = "[]"
         and w = "\<lparr>fs = [\<lparr>root = True, segments = [''in'', ''report.odt'']\<rparr> \<mapsto> File 1], trace = []\<rparr>"]
    by (simp add: Let_def s l st d p i x resolve_alias_eq resolve_no_entry)
qed

subsection \<open>Renaming the artifact\<close>







text \<open>
  The two states in which a rename that returns does not move the file: source and
  destination are hard links of one file (nothing changes), and the source is a
  symbolic link to the destination (afterwards neither path exists).
\<close>

lemma resolve_loop: "f p = Some (Symlink p) \<Longrightarrow> resolve k f p = None"
  by (induction k) simp_all

lemma os_rename_hard_links: "same_file f x y \<Longrightarrow> os_rename x y f = f"
  by (simp add: os_rename_def)

lemma os_rename_symlink_to_destination:
  assumes "f x = Some (Symlink y)" and "x \<noteq> y"
  shows "resolve k (os_rename x y f) y = None \<and> resolve k (os_rename x y f) x = None"
proof -
  have "\<not> same_file f x y"
    using assms(1) by (simp add: same_file_def)
  then have g: "os_rename x y f = f(x := None, y := Some (Symlink y))"
    using assms(1) by (simp add: os_rename_def)
  have "resolve k (f(x := None, y := Some (Symlink y))) y = None"
    by (rule resolve_loop) simp
  moreover have "resolve k (f(x := None, y := Some (Symlink y))) x = None"
    by (rule resolve_no_entry) (use assms(2) in simp)
  ultimately show ?thesis
    by (simp add: g)
qed




end
